theory Spec2Isabelle
  imports Complex_Main "HOL-Library.Sublist"
begin

section \<open>Values of the decoded JSON body\<close>

text \<open>
  A Python float: a finite double by its exact rational value, the two infinities and
  NaN (Python's decoder reads the last three too).
\<close>

datatype pyfloat = Finite rat | PosInf | NegInf | NaN

text \<open>
  What \<^verbatim>\<open>response.json()\<close> can return: None, a bool, an int, a float, a str (the
  list of its characters), a list, or a dict with string keys. A dict is an association
  list; a lookup takes the first entry of a key.
\<close>

datatype jvalue =
    JNull
  | JBool bool
  | JInt int
  | JFloat pyfloat
  | JStr string
  | JList "jvalue list"
  | JDict "(string \<times> jvalue) list"

text \<open>
  The exceptions the modelled code raises; an assertion carries its message. The last
  one stands for whatever the ORM raises.
\<close>

datatype exn =
    AssertionError string
  | AttributeError
  | TypeError
  | JSONDecodeError
  | ValidationError
  | CookieError
  | DatabaseError

text \<open>Python's truth value of an object (\<^verbatim>\<open>bool(x)\<close>, as \<^verbatim>\<open>assert x\<close> reads it).\<close>

fun truthy_float :: "pyfloat \<Rightarrow> bool" where
  "truthy_float (Finite q) = (q \<noteq> 0)"
| "truthy_float PosInf = True"
| "truthy_float NegInf = True"
| "truthy_float NaN = True"

fun truthy :: "jvalue \<Rightarrow> bool" where
  "truthy JNull = False"
| "truthy (JBool b) = b"
| "truthy (JInt i) = (i \<noteq> 0)"
| "truthy (JFloat f) = truthy_float f"
| "truthy (JStr s) = (s \<noteq> [])"
| "truthy (JList xs) = (xs \<noteq> [])"
| "truthy (JDict kvs) = (kvs \<noteq> [])"

text \<open>
  \<^verbatim>\<open>obj.get(key, None)\<close>: only a dict has the method; on any other value the
  attribute lookup raises AttributeError.
\<close>

definition dict_get :: "(string \<times> jvalue) list \<Rightarrow> string \<Rightarrow> jvalue" where
  "dict_get kvs key = (case map_of kvs key of None \<Rightarrow> JNull | Some v \<Rightarrow> v)"

fun json_get :: "jvalue \<Rightarrow> string \<Rightarrow> exn + jvalue" where
  "json_get (JDict kvs) key = Inr (dict_get kvs key)"
| "json_get _ key = Inl AttributeError"

text \<open>\<^verbatim>\<open>len(x)\<close>: defined on str, list and dict, TypeError on the rest.\<close>

fun py_len :: "jvalue \<Rightarrow> exn + nat" where
  "py_len (JStr s) = Inr (length s)"
| "py_len (JList xs) = Inr (length xs)"
| "py_len (JDict kvs) = Inr (length (remdups (map fst kvs)))"
| "py_len _ = Inl TypeError"

text \<open>\<^verbatim>\<open>str(n)\<close> of an int, as an f-string renders it: decimal, with a minus sign.\<close>

definition digit :: "nat \<Rightarrow> char" where
  "digit d = ''0123456789'' ! (d mod 10)"

fun str_nat :: "nat \<Rightarrow> string" where
  "str_nat n = (if n < 10 then [digit n] else str_nat (n div 10) @ [digit (n mod 10)])"

definition str_int :: "int \<Rightarrow> string" where
  "str_int i = (if i < 0 then CHR ''-'' # str_nat (nat (- i)) else str_nat (nat i))"

section \<open>ResponseChecker (testing\_tools/response\_checker.py)\<close>

text \<open>
  The response object, as far as the checker reads it: the raw body and the status code.
\<close>

record Response =
  content :: string
  status_code :: int

text \<open>The checker's attributes \<^verbatim>\<open>_response\<close>, \<^verbatim>\<open>_status\<close> and \<^verbatim>\<open>_json\<close>.\<close>

record ResponseChecker =
  response :: Response
  status :: int
  json :: jvalue

text \<open>
  \<^verbatim>\<open>_process_response\<close> computes the two attributes, the body first. The JSON
  decoder behind \<^verbatim>\<open>response.json()\<close> belongs to the HTTP library and is the
  parameter \<open>decode\<close>: \<open>None\<close> where it raises on a malformed body. It is called only
  when the content is non-empty.
\<close>

definition process_response ::
    "(string \<Rightarrow> jvalue option) \<Rightarrow> Response \<Rightarrow> exn + (jvalue \<times> int)" where
  "process_response decode resp =
     (case (if content resp \<noteq> [] then decode (content resp) else Some (JDict [])) of
        None \<Rightarrow> Inl JSONDecodeError
      | Some j \<Rightarrow> Inr (j, status_code resp))"

text \<open>
  \<^verbatim>\<open>__init__\<close> stores the response and runs \<^verbatim>\<open>_process_response\<close>; an
  exception of the latter leaves no checker.
\<close>

definition ResponseChecker_init ::
    "(string \<Rightarrow> jvalue option) \<Rightarrow> Response \<Rightarrow> exn + ResponseChecker" where
  "ResponseChecker_init decode resp =
     (case process_response decode resp of
        Inl e \<Rightarrow> Inl e
      | Inr (j, st) \<Rightarrow> Inr \<lparr>response = resp, status = st, json = j\<rparr>)"

text \<open>
  \<open>checker_of resp j\<close> names the checker that the constructor leaves for the response
  \<open>resp\<close> when the body decodes to \<open>j\<close>.
\<close>

definition checker_of :: "Response \<Rightarrow> jvalue \<Rightarrow> ResponseChecker" where
  "checker_of resp j = \<lparr>response = resp, status = status_code resp, json = j\<rparr>"

definition key_value :: "ResponseChecker \<Rightarrow> string \<Rightarrow> exn + jvalue" where
  "key_value self key =
     (case json_get (json self) key of
        Inl e \<Rightarrow> Inl e
      | Inr v \<Rightarrow>
          if truthy v then Inr v
          else Inl (AssertionError (''Key '' @ key @ '' not found in response data.'')))"

section \<open>PaginationDTO (your\_app\_utils/pagination.py)\<close>

record PaginationDTO =
  current_page :: "int option"
  total_pages :: "int option"
  total_items :: "int option"
  has_next :: bool
  has_previous :: bool

text \<open>
  The class declares \<^verbatim>\<open>current_page\<close> and \<^verbatim>\<open>total_pages\<close> as
  \<^verbatim>\<open>Optional[int] = None\<close>, \<^verbatim>\<open>total_items\<close> as \<^verbatim>\<open>int = None\<close> and the
  two flags as \<^verbatim>\<open>bool = False\<close>. \<^verbatim>\<open>PaginationDTO(**mapping)\<close> validates
  the given fields against these declarations: a value of the declared type is taken as
  it is, an absent field takes its default, unknown keys are ignored. None is accepted
  only where the declaration is Optional; None, a list and a dict are never an int or a
  bool. What the schema library makes of a scalar of another type (the string
  \<^verbatim>\<open>"1"\<close> for an int, the integer 1 for a bool) is the library's own conversion
  table and is taken as the parameters \<open>lax_int\<close> and \<open>lax_bool\<close>: \<open>None\<close> where the
  library refuses the value.
\<close>

fun validate_int :: "(jvalue \<Rightarrow> int option) \<Rightarrow> jvalue \<Rightarrow> exn + int" where
  "validate_int lax_int (JInt i) = Inr i"
| "validate_int lax_int JNull = Inl ValidationError"
| "validate_int lax_int (JList xs) = Inl ValidationError"
| "validate_int lax_int (JDict kvs) = Inl ValidationError"
| "validate_int lax_int v =
     (case lax_int v of None \<Rightarrow> Inl ValidationError | Some i \<Rightarrow> Inr i)"

fun validate_bool :: "(jvalue \<Rightarrow> bool option) \<Rightarrow> jvalue \<Rightarrow> exn + bool" where
  "validate_bool lax_bool (JBool b) = Inr b"
| "validate_bool lax_bool JNull = Inl ValidationError"
| "validate_bool lax_bool (JList xs) = Inl ValidationError"
| "validate_bool lax_bool (JDict kvs) = Inl ValidationError"
| "validate_bool lax_bool v =
     (case lax_bool v of None \<Rightarrow> Inl ValidationError | Some b \<Rightarrow> Inr b)"

text \<open>A field declared \<^verbatim>\<open>Optional[int] = None\<close>.\<close>

definition opt_int_field ::
    "(jvalue \<Rightarrow> int option) \<Rightarrow> (string \<times> jvalue) list \<Rightarrow> string \<Rightarrow> exn + int option" where
  "opt_int_field lax_int m k =
     (case map_of m k of
        None \<Rightarrow> Inr None
      | Some JNull \<Rightarrow> Inr None
      | Some v \<Rightarrow> (case validate_int lax_int v of Inl e \<Rightarrow> Inl e | Inr i \<Rightarrow> Inr (Some i)))"

text \<open>
  A field declared \<^verbatim>\<open>int = None\<close>: the default is not validated, a given value
  must be an int, so an explicit None is refused.
\<close>

definition int_field ::
    "(jvalue \<Rightarrow> int option) \<Rightarrow> (string \<times> jvalue) list \<Rightarrow> string \<Rightarrow> exn + int option" where
  "int_field lax_int m k =
     (case map_of m k of
        None \<Rightarrow> Inr None
      | Some v \<Rightarrow> (case validate_int lax_int v of Inl e \<Rightarrow> Inl e | Inr i \<Rightarrow> Inr (Some i)))"

text \<open>A field declared \<^verbatim>\<open>bool = False\<close>.\<close>

definition bool_field ::
    "(jvalue \<Rightarrow> bool option) \<Rightarrow> (string \<times> jvalue) list \<Rightarrow> string \<Rightarrow> exn + bool" where
  "bool_field lax_bool m k =
     (case map_of m k of
        None \<Rightarrow> Inr False
      | Some v \<Rightarrow> validate_bool lax_bool v)"

text \<open>The constructor: the five fields in the order of their declaration.\<close>

definition PaginationDTO_init ::
    "(jvalue \<Rightarrow> int option) \<Rightarrow> (jvalue \<Rightarrow> bool option) \<Rightarrow> (string \<times> jvalue) list
     \<Rightarrow> exn + PaginationDTO" where
  "PaginationDTO_init lax_int lax_bool m =
     (case opt_int_field lax_int m ''current_page'' of Inl e \<Rightarrow> Inl e | Inr cp \<Rightarrow>
      case opt_int_field lax_int m ''total_pages'' of Inl e \<Rightarrow> Inl e | Inr tp \<Rightarrow>
      case int_field lax_int m ''total_items'' of Inl e \<Rightarrow> Inl e | Inr ti \<Rightarrow>
      case bool_field lax_bool m ''has_next'' of Inl e \<Rightarrow> Inl e | Inr hn \<Rightarrow>
      case bool_field lax_bool m ''has_previous'' of Inl e \<Rightarrow> Inl e | Inr hp \<Rightarrow>
        Inr \<lparr>current_page = cp, total_pages = tp, total_items = ti,
             has_next = hn, has_previous = hp\<rparr>)"

text \<open>The schema library in its strict mode, which converts nothing.\<close>

definition no_conversion :: "jvalue \<Rightarrow> 'a option" where
  "no_conversion v = None"

section \<open>ResponseChecker.paginated\<close>

text \<open>
  \<^verbatim>\<open>**pagination_data\<close> needs a mapping: any other value is a TypeError before
  the constructor \<open>dto\<close> (the schema class) runs.
\<close>

fun unpack_mapping ::
    "((string \<times> jvalue) list \<Rightarrow> exn + 'd) \<Rightarrow> jvalue \<Rightarrow> exn + 'd" where
  "unpack_mapping dto (JDict m) = dto m"
| "unpack_mapping dto _ = Inl TypeError"

text \<open>
  The statements of \<^verbatim>\<open>paginated\<close> in the order of the source: both lookups,
  \<^verbatim>\<open>len(results)\<close>, then the three assertions, then the constructor.
\<close>

definition paginated ::
    "((string \<times> jvalue) list \<Rightarrow> exn + 'd) \<Rightarrow> ResponseChecker \<Rightarrow> int \<Rightarrow> exn + (jvalue \<times> 'd)" where
  "paginated dto self min_number_of_records =
     (case json_get (json self) ''results'' of Inl e \<Rightarrow> Inl e | Inr results \<Rightarrow>
      case json_get (json self) ''pagination'' of Inl e \<Rightarrow> Inl e | Inr pagination_data \<Rightarrow>
      case py_len results of Inl e \<Rightarrow> Inl e | Inr results_number \<Rightarrow>
        if \<not> results_number > 0 then
          Inl (AssertionError (''Results number is '' @ str_nat results_number
                 @ '', but should be at least '' @ str_int min_number_of_records))
        else if results = JNull then Inl (AssertionError ''No results data'')
        else if pagination_data = JNull then Inl (AssertionError ''No pagination data'')
        else (case unpack_mapping dto pagination_data of
                Inl e \<Rightarrow> Inl e
              | Inr pagination \<Rightarrow> Inr (results, pagination)))"

section \<open>Status classes\<close>

text \<open>
  Modelled from the spec: the module \<^verbatim>\<open>ninja_extra.status\<close> that both the checker
  and the exception import is the framework's and not in src/. The spec names the five
  classes informational, success, redirect, client error and server error; they are the
  HTTP classes 1xx to 5xx.
\<close>

definition status_is_informational :: "int \<Rightarrow> bool" where
  "status_is_informational code = (100 \<le> code \<and> code \<le> 199)"

text \<open>Modelled from the spec: the class 2xx of \<^verbatim>\<open>ninja_extra.status\<close>.\<close>

definition status_is_success :: "int \<Rightarrow> bool" where
  "status_is_success code = (200 \<le> code \<and> code \<le> 299)"

text \<open>Modelled from the spec: the class 3xx of \<^verbatim>\<open>ninja_extra.status\<close>.\<close>

definition status_is_redirect :: "int \<Rightarrow> bool" where
  "status_is_redirect code = (300 \<le> code \<and> code \<le> 399)"

text \<open>Modelled from the spec: the class 4xx of \<^verbatim>\<open>ninja_extra.status\<close>.\<close>

definition status_is_client_error :: "int \<Rightarrow> bool" where
  "status_is_client_error code = (400 \<le> code \<and> code \<le> 499)"

text \<open>Modelled from the spec: the class 5xx of \<^verbatim>\<open>ninja_extra.status\<close>.\<close>

definition status_is_server_error :: "int \<Rightarrow> bool" where
  "status_is_server_error code = (500 \<le> code \<and> code \<le> 599)"

section \<open>ApiException (your\_app\_utils/api\_exception.py)\<close>

text \<open>
  The instance attributes \<^verbatim>\<open>_status_code\<close> and \<^verbatim>\<open>_api_client_message\<close>, and
  the message handed to \<^verbatim>\<open>Exception.__init__\<close>.
\<close>

record ApiException =
  exception_message :: string
  priv_status_code :: int
  priv_api_client_message :: string

datatype log_record = LogWarning string | LogError string

text \<open>The class attributes, which the constructor reads as the defaults.\<close>

definition class_status_code :: int where
  "class_status_code = 400"

definition class_api_client_message :: string where
  "class_api_client_message = ''Error occurred. Try again.''"

text \<open>
  \<^verbatim>\<open>x if x else d\<close> on an optional argument: None and the falsy value of the type
  (the empty string, the integer 0) both give the default.
\<close>

fun str_or_default :: "string option \<Rightarrow> string \<Rightarrow> string" where
  "str_or_default None d = d"
| "str_or_default (Some s) d = (if s \<noteq> [] then s else d)"

fun int_or_default :: "int option \<Rightarrow> int \<Rightarrow> int" where
  "int_or_default None d = d"
| "int_or_default (Some n) d = (if n \<noteq> 0 then n else d)"

text \<open>How an f-string renders the optional \<^verbatim>\<open>message\<close>.\<close>

fun str_of_opt :: "string option \<Rightarrow> string" where
  "str_of_opt None = ''None''"
| "str_of_opt (Some s) = s"

text \<open>The constructor returns the exception object and the records it logs.\<close>

definition ApiException_init ::
    "string option \<Rightarrow> string option \<Rightarrow> int option \<Rightarrow> ApiException \<times> log_record list" where
  "ApiException_init message api_client_message_arg status_code_arg =
     (let exc_message = str_or_default message class_api_client_message;
          sc = int_or_default status_code_arg class_status_code;
          acm = str_or_default api_client_message_arg class_api_client_message;
          message_format = ''ApiException raised: '' @ str_of_opt message
      in (\<lparr>exception_message = exc_message, priv_status_code = sc,
            priv_api_client_message = acm\<rparr>,
          (if status_is_client_error sc then [LogWarning (''Warning'' @ message_format)] else [])
          @ (if status_is_server_error sc then [LogError (''Error'' @ message_format)] else [])))"

text \<open>The two properties.\<close>

definition api_client_message :: "ApiException \<Rightarrow> string" where
  "api_client_message self = priv_api_client_message self"

definition exc_status_code :: "ApiException \<Rightarrow> int" where
  "exc_status_code self = priv_status_code self"

section \<open>ResponseChecker: exception and status checks\<close>

text \<open>
  \<^verbatim>\<open>str(v)\<close> of a decoded value inside an f-string. The rendering of floats, lists
  and dicts is the interpreter's and is the parameter \<open>render\<close>.
\<close>

fun py_str :: "(jvalue \<Rightarrow> string) \<Rightarrow> jvalue \<Rightarrow> string" where
  "py_str render JNull = ''None''"
| "py_str render (JBool b) = (if b then ''True'' else ''False'')"
| "py_str render (JInt i) = str_int i"
| "py_str render (JStr s) = s"
| "py_str render v = render v"

text \<open>
  \<^verbatim>\<open>error_message == message\<close> compares a str with a decoded value: equal exactly
  when the value is that string.
\<close>

definition check_exception ::
    "(jvalue \<Rightarrow> string) \<Rightarrow> ResponseChecker \<Rightarrow> ApiException \<Rightarrow> exn + unit" where
  "check_exception render self api_exception =
     (let exception_status_code = priv_status_code api_exception in
      if status_code (response self) \<noteq> exception_status_code then
        Inl (AssertionError (''Status is: '' @ str_int (status self)
               @ '' but should be: '' @ str_int exception_status_code))
      else
        (let error_message = priv_api_client_message api_exception in
         case key_value self ''message'' of
           Inl e \<Rightarrow> Inl e
         | Inr message \<Rightarrow>
             if JStr error_message = message then Inr ()
             else Inl (AssertionError (''Message to client is: '' @ py_str render message
                         @ ''but should be: '' @ error_message))))"

definition validate_status :: "ResponseChecker \<Rightarrow> int \<Rightarrow> exn + unit" where
  "validate_status self code =
     (if status self = code then Inr ()
      else Inl (AssertionError (''Status is '' @ str_int (status self)
                  @ '' but should be '' @ str_int code)))"

definition is_informational :: "ResponseChecker \<Rightarrow> exn + unit" where
  "is_informational self =
     (if status_is_informational (status self) then Inr ()
      else Inl (AssertionError (''Status is '' @ str_int (status self))))"

definition is_success :: "ResponseChecker \<Rightarrow> exn + unit" where
  "is_success self =
     (if status_is_success (status self) then Inr ()
      else Inl (AssertionError (''Status is '' @ str_int (status self))))"

definition is_redirect :: "ResponseChecker \<Rightarrow> exn + unit" where
  "is_redirect self =
     (if status_is_redirect (status self) then Inr ()
      else Inl (AssertionError (''Status is '' @ str_int (status self))))"

definition is_client_error :: "ResponseChecker \<Rightarrow> exn + unit" where
  "is_client_error self =
     (if status_is_client_error (status self) then Inr ()
      else Inl (AssertionError (''Status is '' @ str_int (status self))))"

definition is_server_error :: "ResponseChecker \<Rightarrow> exn + unit" where
  "is_server_error self =
     (if status_is_server_error (status self) then Inr ()
      else Inl (AssertionError (''Status is '' @ str_int (status self))))"

section \<open>SharedData (testing\_tools/fixtures.py)\<close>

text \<open>
  A dict subclass: \<^verbatim>\<open>data[k] = v\<close> is the inherited store, \<^verbatim>\<open>get\<close> is
  overridden to assert that the key is there.
\<close>

type_synonym 'v SharedData = "string \<rightharpoonup> 'v"

definition SharedData_new :: "'v SharedData" where
  "SharedData_new = Map.empty"

definition SharedData_setitem :: "'v SharedData \<Rightarrow> string \<Rightarrow> 'v \<Rightarrow> 'v SharedData" where
  "SharedData_setitem self key v = self(key \<mapsto> v)"

definition SharedData_get :: "'v SharedData \<Rightarrow> string \<Rightarrow> exn + 'v" where
  "SharedData_get self key =
     (case self key of
        None \<Rightarrow> Inl (AssertionError (''Key: '' @ key @ '' is not in shared_data''))
      | Some v \<Rightarrow> Inr v)"

section \<open>AsyncClientBoB (testing\_tools/async\_client.py)\<close>

text \<open>
  The wrapper's identity attributes, its headers, and the cookie jar of the test client
  it wraps (\<^verbatim>\<open>_client.cookies\<close>), as name and value pairs.
\<close>

record AsyncClientBoB =
  email :: "string option"
  uid :: "string option"
  password :: "string option"
  organization_id :: "string option"
  organization_name :: "string option"
  headers :: "(string \<times> string) list"
  cookies :: "(string \<times> string) list"

text \<open>The constructor: a new test client starts with an empty cookie jar.\<close>

definition AsyncClientBoB_init ::
    "(string \<times> string) list \<Rightarrow> string option \<Rightarrow> string option \<Rightarrow> string option \<Rightarrow>
     string option \<Rightarrow> AsyncClientBoB" where
  "AsyncClientBoB_init hs em u pw org =
     \<lparr>email = em, uid = u, password = pw, organization_id = org,
      organization_name = None, headers = hs, cookies = []\<rparr>"

text \<open>
  \<^verbatim>\<open>SimpleCookie(mapping)\<close> stores one morsel per entry, under the entry's name and
  holding the entry's value. Setting a morsel raises CookieError when the lower-cased
  name is one of the reserved attribute names, and otherwise when the name is empty or
  has a character outside the legal ones.
\<close>

definition legal_chars :: string where
  "legal_chars =
     ''abcdefghijklmnopqrstuvwxyzABCDEFGHIJKLMNOPQRSTUVWXYZ0123456789''
     @ [CHR ''!'', CHR ''#'', CHR ''$'', CHR ''%'', CHR ''&'', CHR 0x27, CHR ''*'', CHR ''+'',
        CHR ''-'', CHR ''.'', CHR ''^'', CHR ''_'', CHR 0x60, CHR ''|'', CHR ''~'', CHR '':'']"

definition is_legal_key :: "string \<Rightarrow> bool" where
  "is_legal_key k = (k \<noteq> [] \<and> list_all (\<lambda>c. c \<in> set legal_chars) k)"

definition ascii_lower :: "char \<Rightarrow> char" where
  "ascii_lower c =
     (case map_of (zip ''ABCDEFGHIJKLMNOPQRSTUVWXYZ'' ''abcdefghijklmnopqrstuvwxyz'') c of
        None \<Rightarrow> c
      | Some l \<Rightarrow> l)"

definition reserved_keys :: "string list" where
  "reserved_keys =
     [''expires'', ''path'', ''comment'', ''domain'', ''max-age'', ''secure'', ''httponly'',
      ''version'', ''samesite'']"

definition morsel_set :: "string \<Rightarrow> string \<Rightarrow> exn + (string \<times> string)" where
  "morsel_set k v =
     (if map ascii_lower k \<in> set reserved_keys then Inl CookieError
      else if \<not> is_legal_key k then Inl CookieError
      else Inr (k, v))"

fun SimpleCookie :: "(string \<times> string) list \<Rightarrow> exn + (string \<times> string) list" where
  "SimpleCookie [] = Inr []"
| "SimpleCookie ((k, v) # rest) =
     (case morsel_set k v of
        Inl e \<Rightarrow> Inl e
      | Inr kv \<Rightarrow> (case SimpleCookie rest of Inl e \<Rightarrow> Inl e | Inr jar \<Rightarrow> Inr (kv # jar)))"

text \<open>The setter of the \<^verbatim>\<open>cookies\<close> property replaces the jar.\<close>

definition set_cookies :: "AsyncClientBoB \<Rightarrow> (string \<times> string) list \<Rightarrow> exn + AsyncClientBoB" where
  "set_cookies self mapping =
     (case SimpleCookie mapping of
        Inl e \<Rightarrow> Inl e
      | Inr jar \<Rightarrow> Inr (self\<lparr>cookies := jar\<rparr>))"

section \<open>User factories (testing\_tools/fixtures.py)\<close>

definition generate_email :: "string \<Rightarrow> string" where
  "generate_email name = name @ ''@test.businessorientedprogramming.com''"

text \<open>
  Objects have identity: a wrapper lives in a store (the list \<open>heap\<close>) and is known by
  its address, the index at which it was allocated. A factory is its class and its
  \<^verbatim>\<open>_users\<close> dict from names to addresses. The world is the factory, the store and
  the database that the authorized factory writes to.
\<close>

datatype factory_class = AnonymousUserFactory | AuthorizedUserFactory

record UserFactory =
  factory_class :: factory_class
  users :: "string \<rightharpoonup> nat"

record 'db world =
  factory :: UserFactory
  heap :: "AsyncClientBoB list"
  db :: 'db

definition UserFactory_init :: "factory_class \<Rightarrow> UserFactory" where
  "UserFactory_init cls = \<lparr>factory_class = cls, users = Map.empty\<rparr>"

text \<open>
  \<^verbatim>\<open>AnonymousUserFactory._create\<close>: the new wrapper is allocated at the end of the
  store. An exception of the cookie setter would leave no wrapper.
\<close>

definition Anonymous_create ::
    "string \<Rightarrow> AsyncClientBoB list \<Rightarrow> (exn + nat) \<times> AsyncClientBoB list" where
  "Anonymous_create name h =
     (let client = AsyncClientBoB_init [] None None None None in
      case set_cookies client [(''ANONYMOUS_USER_EXTERNAL_ID'', name)] of
        Inl e \<Rightarrow> (Inl e, h)
      | Inr client \<Rightarrow> (Inr (length h), h @ [client\<lparr>uid := Some name\<rparr>]))"

text \<open>
  \<^verbatim>\<open>AuthorizedUserFactory._create\<close>. The three ORM calls (get or create the user
  by the generated email, set the password, save) are the web framework's: \<open>orm mail d\<close>
  is the database they leave and the exception one of them raised, if any. After them
  stands \<^verbatim>\<open>assert False\<close>, so the method never returns a wrapper; the statements
  behind the assertion are never run.
\<close>

definition Authorized_create ::
    "(string \<Rightarrow> 'db \<Rightarrow> exn option \<times> 'db) \<Rightarrow> string \<Rightarrow> 'db \<Rightarrow> exn \<times> 'db" where
  "Authorized_create orm name d =
     (let mail = generate_email name;
          (raised, d') = orm mail d
      in case raised of
           Some e \<Rightarrow> (e, d')
         | None \<Rightarrow> (AssertionError [], d'))"

text \<open>\<^verbatim>\<open>self._create(name)\<close>, dispatched on the class of the factory.\<close>

definition create ::
    "(string \<Rightarrow> 'db \<Rightarrow> exn option \<times> 'db) \<Rightarrow> string \<Rightarrow> 'db world \<Rightarrow> (exn + nat) \<times> 'db world" where
  "create orm name w =
     (case factory_class (factory w) of
        AnonymousUserFactory \<Rightarrow>
          (let (r, h) = Anonymous_create name (heap w) in (r, w\<lparr>heap := h\<rparr>))
      | AuthorizedUserFactory \<Rightarrow>
          (let (e, d) = Authorized_create orm name (db w) in (Inl e, w\<lparr>db := d\<rparr>)))"

text \<open>
  \<^verbatim>\<open>get_user\<close>: a name that is not in \<^verbatim>\<open>_users\<close> is created and stored, then
  the stored address is returned. When \<^verbatim>\<open>_create\<close> raises, nothing is stored.
\<close>

definition get_user ::
    "(string \<Rightarrow> 'db \<Rightarrow> exn option \<times> 'db) \<Rightarrow> string \<Rightarrow> 'db world \<Rightarrow> (exn + nat) \<times> 'db world" where
  "get_user orm name w =
     (case users (factory w) name of
        None \<Rightarrow>
          (case create orm name w of
             (Inl e, w') \<Rightarrow> (Inl e, w')
           | (Inr a, w') \<Rightarrow>
               (Inr a, w'\<lparr>factory := (factory w')\<lparr>users := (users (factory w'))(name \<mapsto> a)\<rparr>\<rparr>))
      | Some a \<Rightarrow> (Inr a, w))"

text \<open>A run of later calls, one per name; a call that raises leaves the session running.\<close>

fun get_users ::
    "(string \<Rightarrow> 'db \<Rightarrow> exn option \<times> 'db) \<Rightarrow> string list \<Rightarrow> 'db world \<Rightarrow> 'db world" where
  "get_users orm [] w = w"
| "get_users orm (name # names) w = get_users orm names (snd (get_user orm name w))"

text \<open>
  The invariant of the cache: every address that the factory holds is allocated in the
  store.
\<close>

definition allocated :: "'db world \<Rightarrow> bool" where
  "allocated w = (\<forall>name a. users (factory w) name = Some a \<longrightarrow> a < length (heap w))"

text \<open>An ORM whose calls succeed and leave the database as it is.\<close>

definition orm_ok :: "string \<Rightarrow> 'db \<Rightarrow> exn option \<times> 'db" where
  "orm_ok mail d = (None, d)"

section \<open>key\_value\<close>

lemma key_value_dict:
  "json self = JDict b \<Longrightarrow>
   key_value self key =
     (if truthy (dict_get b key) then Inr (dict_get b key)
      else Inl (AssertionError (''Key '' @ key @ '' not found in response data.'')))"
  by (simp add: key_value_def)

lemma key_value_no_dict:
  "\<forall>b. json self \<noteq> JDict b \<Longrightarrow> key_value self key = Inl AttributeError"
  by (cases "json self") (simp_all add: key_value_def)

lemma key_value_dict_cases:
  assumes "json self = JDict b"
  shows "(key_value self key = Inr v \<longleftrightarrow> map_of b key = Some v \<and> truthy v)
       \<and> (key_value self key = Inl (AssertionError (''Key '' @ key @ '' not found in response data.''))
            \<longleftrightarrow> map_of b key = None \<or> (\<exists>w. map_of b key = Some w \<and> \<not> truthy w))
       \<and> ((\<exists>m. key_value self key = Inl (AssertionError m))
            \<longleftrightarrow> map_of b key = None \<or> (\<exists>w. map_of b key = Some w \<and> \<not> truthy w))"
proof (cases "map_of b key")
  case None
  then show ?thesis
    using assms by (simp add: key_value_dict dict_get_def)
next
  case (Some w)
  then show ?thesis
    using assms by (auto simp: key_value_dict dict_get_def)
qed

text \<open>
  C2. \<open>key_value\<close> returns \<open>v\<close> exactly when the decoded body is a JSON object that binds
  the key to \<open>v\<close> and \<open>v\<close> is truthy. It raises an assertion failure exactly when the
  body is a JSON object in which the key is absent or bound to a falsy value (None,
  False, 0, 0.0, the empty string, the empty list, the empty object), and the failure
  carries the message of the source. A body that is no JSON object has no keys to look
  up: there the lookup itself raises AttributeError.
\<close>

theorem key_value_spec:
  "(key_value self key = Inr v \<longleftrightarrow>
      (\<exists>b. json self = JDict b \<and> map_of b key = Some v \<and> truthy v))
   \<and> ((\<exists>m. key_value self key = Inl (AssertionError m)) \<longleftrightarrow>
      (\<exists>b. json self = JDict b
         \<and> (map_of b key = None \<or> (\<exists>w. map_of b key = Some w \<and> \<not> truthy w))))
   \<and> (json self = JDict b
        \<and> (map_of b key = None \<or> (\<exists>w. map_of b key = Some w \<and> \<not> truthy w)) \<longrightarrow>
      key_value self key = Inl (AssertionError (''Key '' @ key @ '' not found in response data.'')))
   \<and> ((\<forall>kvs. json self \<noteq> JDict kvs) \<longrightarrow> key_value self key = Inl AttributeError)"
proof (cases "\<exists>kvs. json self = JDict kvs")
  case True
  then obtain kvs where kvs: "json self = JDict kvs" ..
  note c = key_value_dict_cases [OF kvs, of key]
  have "key_value self key = Inr v \<longleftrightarrow>
      (\<exists>b. json self = JDict b \<and> map_of b key = Some v \<and> truthy v)"
    using c [of v] kvs by auto
  moreover have "(\<exists>m. key_value self key = Inl (AssertionError m)) \<longleftrightarrow>
      (\<exists>b. json self = JDict b
         \<and> (map_of b key = None \<or> (\<exists>w. map_of b key = Some w \<and> \<not> truthy w)))"
    using c [of v] kvs by auto
  moreover have "json self = JDict b
        \<and> (map_of b key = None \<or> (\<exists>w. map_of b key = Some w \<and> \<not> truthy w)) \<longrightarrow>
      key_value self key = Inl (AssertionError (''Key '' @ key @ '' not found in response data.''))"
    using c [of v] kvs by auto
  ultimately show ?thesis
    using kvs by blast
next
  case False
  then have no: "\<forall>kvs. json self \<noteq> JDict kvs" by blast
  then have "key_value self key = Inl AttributeError"
    by (rule key_value_no_dict)
  with no show ?thesis by simp
qed

theorem key_value_spec_witness:
  "key_value (checker_of \<lparr>content = ''{a: 1, z: 0}'', status_code = 200\<rparr>
                (JDict [(''a'', JInt 1), (''z'', JInt 0)])) ''a'' = Inr (JInt 1)
   \<and> key_value (checker_of \<lparr>content = ''{a: 1, z: 0}'', status_code = 200\<rparr>
                (JDict [(''a'', JInt 1), (''z'', JInt 0)])) ''z''
       = Inl (AssertionError ''Key z not found in response data.'')
   \<and> key_value (checker_of \<lparr>content = ''{a: 1, z: 0}'', status_code = 200\<rparr>
                (JDict [(''a'', JInt 1), (''z'', JInt 0)])) ''b''
       = Inl (AssertionError ''Key b not found in response data.'')
   \<and> key_value (checker_of \<lparr>content = ''[1]'', status_code = 200\<rparr> (JList [JInt 1])) ''a''
       = Inl AttributeError"
proof -
  let ?b = "[(''a'', JInt 1), (''z'', JInt 0)]"
  let ?c = "checker_of \<lparr>content = ''{a: 1, z: 0}'', status_code = 200\<rparr> (JDict ?b)"
  let ?l = "checker_of \<lparr>content = ''[1]'', status_code = 200\<rparr> (JList [JInt 1])"
  have body: "json ?c = JDict ?b"
    by (simp add: checker_of_def)
  have "key_value ?c ''a'' = Inr (JInt 1)"
    using key_value_spec [of ?c "''a''" "JInt 1" ?b] body by simp
  moreover have "key_value ?c ''z'' = Inl (AssertionError ''Key z not found in response data.'')"
    using key_value_spec [of ?c "''z''" _ ?b] body by simp
  moreover have "key_value ?c ''b'' = Inl (AssertionError ''Key b not found in response data.'')"
    using key_value_spec [of ?c "''b''" _ ?b] body by simp
  moreover have "key_value ?l ''a'' = Inl AttributeError"
    using key_value_spec [of ?l "''a''"] by (simp add: checker_of_def)
  ultimately show ?thesis by simp
qed

section \<open>paginated\<close>

lemma paginated_results_missing:
  "json self = JDict b \<Longrightarrow> map_of b ''results'' = None \<Longrightarrow> paginated dto self m = Inl TypeError"
  by (simp add: paginated_def dict_get_def)

lemma paginated_results_empty:
  "json self = JDict b \<Longrightarrow> map_of b ''results'' = Some (JList []) \<Longrightarrow>
   paginated dto self m =
     Inl (AssertionError (''Results number is 0, but should be at least '' @ str_int m))"
  by (simp add: paginated_def dict_get_def digit_def)

lemma paginated_pagination_missing:
  "json self = JDict b \<Longrightarrow> map_of b ''pagination'' = None \<Longrightarrow> \<exists>e. paginated dto self m = Inl e"
  by (simp add: paginated_def dict_get_def split: sum.splits)

lemma paginated_ok:
  "json self = JDict b \<Longrightarrow> map_of b ''results'' = Some (JList (x # xs)) \<Longrightarrow>
   map_of b ''pagination'' = Some (JDict pd) \<Longrightarrow> dto pd = Inr d \<Longrightarrow>
   paginated dto self m = Inr (JList (x # xs), d)"
  by (simp add: paginated_def dict_get_def)

text \<open>
  C3. \<open>paginated\<close> fails when the body's \<open>results\<close> entry is the empty list (the
  assertion on the number of results), when \<open>results\<close> is missing (\<^verbatim>\<open>len(None)\<close>
  raises TypeError before any assertion is reached), when \<open>pagination\<close> is missing, and
  when the body is no JSON object at all. When \<open>results\<close> is a non-empty list and
  \<open>pagination\<close> a mapping that the DTO constructor accepts as \<open>d\<close>, it returns the pair of
  the results and \<open>d\<close>.
\<close>

theorem paginated_spec:
  "(json self = JDict b \<and> map_of b ''results'' = Some (JList []) \<longrightarrow>
      (\<exists>msg. paginated dto self m = Inl (AssertionError msg)))
   \<and> (json self = JDict b \<and> map_of b ''results'' = None \<longrightarrow>
      paginated dto self m = Inl TypeError)
   \<and> (json self = JDict b \<and> map_of b ''pagination'' = None \<longrightarrow>
      (\<exists>e. paginated dto self m = Inl e))
   \<and> ((\<forall>kvs. json self \<noteq> JDict kvs) \<longrightarrow> paginated dto self m = Inl AttributeError)
   \<and> (json self = JDict b \<and> map_of b ''results'' = Some (JList (x # xs))
        \<and> map_of b ''pagination'' = Some (JDict pd) \<and> dto pd = Inr d \<longrightarrow>
      paginated dto self m = Inr (JList (x # xs), d))"
proof (intro conjI impI)
  assume "json self = JDict b \<and> map_of b ''results'' = Some (JList [])"
  then show "\<exists>msg. paginated dto self m = Inl (AssertionError msg)"
    by (simp add: paginated_results_empty)
next
  assume "json self = JDict b \<and> map_of b ''results'' = None"
  then show "paginated dto self m = Inl TypeError"
    by (simp add: paginated_results_missing)
next
  assume "json self = JDict b \<and> map_of b ''pagination'' = None"
  then show "\<exists>e. paginated dto self m = Inl e"
    using paginated_pagination_missing by blast
next
  assume "\<forall>kvs. json self \<noteq> JDict kvs"
  then show "paginated dto self m = Inl AttributeError"
    by (cases "json self") (simp_all add: paginated_def)
next
  assume "json self = JDict b \<and> map_of b ''results'' = Some (JList (x # xs))
        \<and> map_of b ''pagination'' = Some (JDict pd) \<and> dto pd = Inr d"
  then show "paginated dto self m = Inr (JList (x # xs), d)"
    by (simp add: paginated_ok)
qed

theorem paginated_spec_witness:
  "paginated (PaginationDTO_init no_conversion no_conversion)
     (checker_of \<lparr>content = ''page'', status_code = 200\<rparr>
        (JDict [(''results'', JList [JInt 1, JInt 2]),
                (''pagination'', JDict [(''current_page'', JInt 1), (''total_pages'', JInt 1),
                   (''total_items'', JInt 2), (''has_next'', JBool False),
                   (''has_previous'', JBool False)])])) 0
     = Inr (JList [JInt 1, JInt 2],
            \<lparr>current_page = Some 1, total_pages = Some 1, total_items = Some 2,
             has_next = False, has_previous = False\<rparr>)
   \<and> (\<exists>msg. paginated (PaginationDTO_init no_conversion no_conversion)
         (checker_of \<lparr>content = ''page'', status_code = 200\<rparr>
            (JDict [(''results'', JList []), (''pagination'', JDict [])])) 0
       = Inl (AssertionError msg))
   \<and> paginated (PaginationDTO_init no_conversion no_conversion)
         (checker_of \<lparr>content = ''page'', status_code = 200\<rparr>
            (JDict [(''pagination'', JDict [])])) 0
       = Inl TypeError
   \<and> (\<exists>e. paginated (PaginationDTO_init no_conversion no_conversion)
         (checker_of \<lparr>content = ''page'', status_code = 200\<rparr>
            (JDict [(''results'', JList [JInt 1])])) 0
       = Inl e)
   \<and> paginated (PaginationDTO_init no_conversion no_conversion)
         (checker_of \<lparr>content = ''page'', status_code = 200\<rparr> (JList [JInt 1])) 0
       = Inl AttributeError"
proof -
  let ?r = "\<lparr>content = ''page'', status_code = 200\<rparr>"
  let ?pd = "[(''current_page'', JInt 1), (''total_pages'', JInt 1),
              (''total_items'', JInt 2), (''has_next'', JBool False),
              (''has_previous'', JBool False)]"
  let ?d = "\<lparr>current_page = Some 1, total_pages = Some 1, total_items = Some 2,
             has_next = False, has_previous = False\<rparr>"
  have dto: "PaginationDTO_init no_conversion no_conversion ?pd = Inr ?d"
    by (simp add: PaginationDTO_init_def opt_int_field_def int_field_def bool_field_def)
  have "paginated (PaginationDTO_init no_conversion no_conversion)
          (checker_of ?r (JDict [(''results'', JList [JInt 1, JInt 2]), (''pagination'', JDict ?pd)])) 0
        = Inr (JList [JInt 1, JInt 2], ?d)"
    using dto paginated_spec [of "checker_of ?r (JDict [(''results'', JList [JInt 1, JInt 2]),
        (''pagination'', JDict ?pd)])"
        "[(''results'', JList [JInt 1, JInt 2]), (''pagination'', JDict ?pd)]"
        "PaginationDTO_init no_conversion no_conversion" 0 "JInt 1" "[JInt 2]" ?pd ?d]
    by (simp add: checker_of_def)
  moreover have "\<exists>msg. paginated (PaginationDTO_init no_conversion no_conversion)
          (checker_of ?r (JDict [(''results'', JList []), (''pagination'', JDict [])])) 0
        = Inl (AssertionError msg)"
    using paginated_spec [of "checker_of ?r (JDict [(''results'', JList []), (''pagination'', JDict [])])"
        "[(''results'', JList []), (''pagination'', JDict [])]" "PaginationDTO_init no_conversion no_conversion" 0]
    by (simp add: checker_of_def)
  moreover have "paginated (PaginationDTO_init no_conversion no_conversion)
          (checker_of ?r (JDict [(''pagination'', JDict [])])) 0 = Inl TypeError"
    using paginated_spec [of "checker_of ?r (JDict [(''pagination'', JDict [])])"
        "[(''pagination'', JDict [])]" "PaginationDTO_init no_conversion no_conversion" 0]
    by (simp add: checker_of_def)
  moreover have "\<exists>e. paginated (PaginationDTO_init no_conversion no_conversion)
          (checker_of ?r (JDict [(''results'', JList [JInt 1])])) 0 = Inl e"
    using paginated_spec [of "checker_of ?r (JDict [(''results'', JList [JInt 1])])"
        "[(''results'', JList [JInt 1])]" "PaginationDTO_init no_conversion no_conversion" 0]
    by (simp add: checker_of_def)
  moreover have "paginated (PaginationDTO_init no_conversion no_conversion) (checker_of ?r (JList [JInt 1])) 0 = Inl AttributeError"
    using paginated_spec [of "checker_of ?r (JList [JInt 1])" _ "PaginationDTO_init no_conversion no_conversion" 0]
    by (simp add: checker_of_def)
  ultimately show ?thesis by blast
qed

text \<open>
  C4, amended. The value of \<open>min_number_of_records\<close> never decides the outcome: when the
  body has a non-empty \<open>results\<close> list and a \<open>pagination\<close> mapping that the DTO
  constructor accepts, \<open>paginated\<close> succeeds with the same pair for every two values of
  the parameter, also for one above the number of results; and whenever one call
  succeeds, the call with any other value of the parameter returns the same pair.
\<close>

theorem paginated_min_ignored:
  "(json self = JDict b \<and> map_of b ''results'' = Some (JList (x # xs))
      \<and> map_of b ''pagination'' = Some (JDict pd) \<and> dto pd = Inr d \<longrightarrow>
      paginated dto self m1 = Inr (JList (x # xs), d)
      \<and> paginated dto self m2 = Inr (JList (x # xs), d)
      \<and> paginated dto self (int (length (x # xs)) + 1) = Inr (JList (x # xs), d))
   \<and> (paginated dto self m1 = Inr r \<longrightarrow> paginated dto self m2 = Inr r)"
proof (intro conjI impI)
  assume h: "json self = JDict b \<and> map_of b ''results'' = Some (JList (x # xs))
      \<and> map_of b ''pagination'' = Some (JDict pd) \<and> dto pd = Inr d"
  then show "paginated dto self m1 = Inr (JList (x # xs), d)"
    by (simp add: paginated_ok)
  from h show "paginated dto self m2 = Inr (JList (x # xs), d)"
    by (simp add: paginated_ok)
  from h show "paginated dto self (int (length (x # xs)) + 1) = Inr (JList (x # xs), d)"
    by (simp add: paginated_ok)
next
  assume "paginated dto self m1 = Inr r"
  then show "paginated dto self m2 = Inr r"
    by (auto simp: paginated_def split: sum.splits if_splits)
qed

theorem paginated_min_ignored_witness:
  "paginated (PaginationDTO_init no_conversion no_conversion)
     (checker_of \<lparr>content = ''page'', status_code = 200\<rparr>
        (JDict [(''results'', JList [JInt 1, JInt 2]),
                (''pagination'', JDict [(''current_page'', JInt 1)])])) 0
     = Inr (JList [JInt 1, JInt 2],
            \<lparr>current_page = Some 1, total_pages = None, total_items = None,
             has_next = False, has_previous = False\<rparr>)
   \<and> paginated (PaginationDTO_init no_conversion no_conversion)
     (checker_of \<lparr>content = ''page'', status_code = 200\<rparr>
        (JDict [(''results'', JList [JInt 1, JInt 2]),
                (''pagination'', JDict [(''current_page'', JInt 1)])])) 100
     = Inr (JList [JInt 1, JInt 2],
            \<lparr>current_page = Some 1, total_pages = None, total_items = None,
             has_next = False, has_previous = False\<rparr>)"
proof -
  let ?pd = "[(''current_page'', JInt 1)]"
  let ?b = "[(''results'', JList [JInt 1, JInt 2]), (''pagination'', JDict ?pd)]"
  let ?c = "checker_of \<lparr>content = ''page'', status_code = 200\<rparr> (JDict ?b)"
  let ?d = "\<lparr>current_page = Some 1, total_pages = None, total_items = None,
             has_next = False, has_previous = False\<rparr>"
  have dto: "PaginationDTO_init no_conversion no_conversion ?pd = Inr ?d"
    by (simp add: PaginationDTO_init_def opt_int_field_def int_field_def bool_field_def)
  have first: "paginated (PaginationDTO_init no_conversion no_conversion) ?c 0 = Inr (JList [JInt 1, JInt 2], ?d)"
    using dto paginated_min_ignored [of ?c ?b "JInt 1" "[JInt 2]" ?pd "PaginationDTO_init no_conversion no_conversion" ?d 0 100]
    by (simp add: checker_of_def)
  then have "paginated (PaginationDTO_init no_conversion no_conversion) ?c 100 = Inr (JList [JInt 1, JInt 2], ?d)"
    using paginated_min_ignored [of ?c _ _ _ _ "PaginationDTO_init no_conversion no_conversion" _ 0 100 "(JList [JInt 1, JInt 2], ?d)"]
    by simp
  with first show ?thesis by simp
qed

text \<open>
  Without the condition on the mapping the calls do not succeed: a \<open>pagination\<close> mapping
  whose \<open>current_page\<close> is a word is refused by the DTO constructor, and \<open>paginated\<close>
  raises its validation error.
\<close>

theorem paginated_mapping_counterexample:
  "paginated (PaginationDTO_init no_conversion no_conversion)
     (checker_of \<lparr>content = ''page'', status_code = 200\<rparr>
        (JDict [(''results'', JList [JInt 1, JInt 2]),
                (''pagination'', JDict [(''current_page'', JStr ''first'')])])) 0
     = Inl ValidationError"
  by (simp add: paginated_def checker_of_def dict_get_def PaginationDTO_init_def
      opt_int_field_def int_field_def bool_field_def no_conversion_def)

section \<open>check\_exception\<close>

lemma ApiException_message_nonempty:
  "priv_api_client_message (fst (ApiException_init m a s)) \<noteq> []"
  by (cases a) (simp_all add: ApiException_init_def Let_def class_api_client_message_def)

lemma check_exception_pass_iff:
  assumes "priv_api_client_message E \<noteq> []"
  shows "check_exception render self E = Inr () \<longleftrightarrow>
           status_code (response self) = exc_status_code E
           \<and> (\<exists>b. json self = JDict b \<and> map_of b ''message'' = Some (JStr (api_client_message E)))"
proof (cases "json self")
  case (JDict b)
  show ?thesis
  proof (cases "map_of b ''message''")
    case None
    with JDict show ?thesis
      by (simp add: check_exception_def Let_def key_value_dict dict_get_def exc_status_code_def)
  next
    case (Some w)
    with JDict assms show ?thesis
      by (auto simp: check_exception_def Let_def key_value_dict dict_get_def
          exc_status_code_def api_client_message_def)
  qed
qed (simp_all add: check_exception_def Let_def key_value_def)

lemma check_exception_fail_dict:
  assumes "json self = JDict b"
    and "check_exception render self E \<noteq> Inr ()"
  shows "\<exists>msg. check_exception render self E = Inl (AssertionError msg)"
  using assms
  by (auto simp: check_exception_def Let_def key_value_dict split: if_splits)

text \<open>
  C5. For an expected exception \<open>E\<close> built by the constructor of ApiException:
  \<open>check_exception\<close> passes exactly when the status code of the response equals the
  status code of \<open>E\<close> and the decoded body is a JSON object whose \<open>message\<close> entry is the
  client message of \<open>E\<close>. When the status codes differ it raises an assertion failure,
  and so it does on every JSON-object body whose \<open>message\<close> entry is not that message.
\<close>

theorem check_exception_spec:
  assumes "E = fst (ApiException_init message acm sc)"
  shows "(check_exception render self E = Inr () \<longleftrightarrow>
            status_code (response self) = exc_status_code E
            \<and> (\<exists>b. json self = JDict b
                  \<and> map_of b ''message'' = Some (JStr (api_client_message E))))
       \<and> (status_code (response self) \<noteq> exc_status_code E \<longrightarrow>
            (\<exists>msg. check_exception render self E = Inl (AssertionError msg)))
       \<and> (json self = JDict b \<and> map_of b ''message'' \<noteq> Some (JStr (api_client_message E)) \<longrightarrow>
            (\<exists>msg. check_exception render self E = Inl (AssertionError msg)))"
proof -
  have ne: "priv_api_client_message E \<noteq> []"
    using assms by (simp add: ApiException_message_nonempty)
  note pass = check_exception_pass_iff [OF ne, of render self]
  have "\<exists>msg. check_exception render self E = Inl (AssertionError msg)"
    if "status_code (response self) \<noteq> exc_status_code E"
    using that by (simp add: check_exception_def Let_def exc_status_code_def)
  moreover have "\<exists>msg. check_exception render self E = Inl (AssertionError msg)"
    if "json self = JDict b \<and> map_of b ''message'' \<noteq> Some (JStr (api_client_message E))"
  proof -
    from that pass have "check_exception render self E \<noteq> Inr ()"
      by auto
    with that show ?thesis
      using check_exception_fail_dict by blast
  qed
  ultimately show ?thesis
    using pass by blast
qed

theorem check_exception_spec_witness:
  "check_exception (\<lambda>v. ''?'')
     (checker_of \<lparr>content = ''body'', status_code = 404\<rparr> (JDict [(''message'', JStr ''Not found'')]))
     (fst (ApiException_init None (Some ''Not found'') (Some 404))) = Inr ()
   \<and> (\<exists>msg. check_exception (\<lambda>v. ''?'')
     (checker_of \<lparr>content = ''body'', status_code = 200\<rparr> (JDict [(''message'', JStr ''Not found'')]))
     (fst (ApiException_init None (Some ''Not found'') (Some 404))) = Inl (AssertionError msg))
   \<and> (\<exists>msg. check_exception (\<lambda>v. ''?'')
     (checker_of \<lparr>content = ''body'', status_code = 404\<rparr> (JDict [(''message'', JStr ''Gone'')]))
     (fst (ApiException_init None (Some ''Not found'') (Some 404))) = Inl (AssertionError msg))"
proof -
  let ?E = "fst (ApiException_init None (Some ''Not found'') (Some 404))"
  have E: "exc_status_code ?E = 404" "api_client_message ?E = ''Not found''"
    by (simp_all add: ApiException_init_def Let_def exc_status_code_def api_client_message_def)
  note spec = check_exception_spec [OF refl, of "\<lambda>v. ''?''" _ None "Some ''Not found''" "Some 404"]
  have "check_exception (\<lambda>v. ''?'')
     (checker_of \<lparr>content = ''body'', status_code = 404\<rparr> (JDict [(''message'', JStr ''Not found'')]))
     ?E = Inr ()"
    using spec [of "checker_of \<lparr>content = ''body'', status_code = 404\<rparr>
        (JDict [(''message'', JStr ''Not found'')])"] E
    by (simp add: checker_of_def)
  moreover have "\<exists>msg. check_exception (\<lambda>v. ''?'')
     (checker_of \<lparr>content = ''body'', status_code = 200\<rparr> (JDict [(''message'', JStr ''Not found'')]))
     ?E = Inl (AssertionError msg)"
    using spec [of "checker_of \<lparr>content = ''body'', status_code = 200\<rparr>
        (JDict [(''message'', JStr ''Not found'')])"] E
    by (simp add: checker_of_def)
  moreover have "\<exists>msg. check_exception (\<lambda>v. ''?'')
     (checker_of \<lparr>content = ''body'', status_code = 404\<rparr> (JDict [(''message'', JStr ''Gone'')]))
     ?E = Inl (AssertionError msg)"
    using spec [of "checker_of \<lparr>content = ''body'', status_code = 404\<rparr>
        (JDict [(''message'', JStr ''Gone'')])" "[(''message'', JStr ''Gone'')]"] E
    by (simp add: checker_of_def)
  ultimately show ?thesis by blast
qed

section \<open>Construction of the checker\<close>

lemma init_fields:
  assumes "ResponseChecker_init decode resp = Inr self"
  shows "response self = resp" and "status self = status_code resp"
  using assms
  by (auto simp: ResponseChecker_init_def process_response_def split: if_splits option.splits)

text \<open>
  C7. The constructor is the only place where the body is decoded, and it decides the
  checker's fields: an empty content gives the empty mapping without a call of the
  decoder; a non-empty content that the decoder refuses makes the constructor itself
  raise; a non-empty content that decodes to \<open>j\<close> gives a checker holding \<open>j\<close>. Every
  checker that the constructor returns holds the response, its status code and that
  decoded body.
\<close>

theorem ResponseChecker_init_spec:
  "(content resp = [] \<longrightarrow>
      ResponseChecker_init decode resp = Inr (checker_of resp (JDict [])))
   \<and> (content resp \<noteq> [] \<and> decode (content resp) = None \<longrightarrow>
      ResponseChecker_init decode resp = Inl JSONDecodeError)
   \<and> (content resp \<noteq> [] \<and> decode (content resp) = Some j \<longrightarrow>
      ResponseChecker_init decode resp = Inr (checker_of resp j))
   \<and> (ResponseChecker_init decode resp = Inr self \<longrightarrow>
      response self = resp \<and> status self = status_code resp
      \<and> (content resp = [] \<and> json self = JDict []
           \<or> content resp \<noteq> [] \<and> decode (content resp) = Some (json self)))
   \<and> response (checker_of resp j) = resp
   \<and> status (checker_of resp j) = status_code resp
   \<and> json (checker_of resp j) = j"
proof -
  have empty: "ResponseChecker_init decode resp = Inr (checker_of resp (JDict []))"
    if "content resp = []"
    using that by (simp add: ResponseChecker_init_def process_response_def checker_of_def)
  have malformed: "ResponseChecker_init decode resp = Inl JSONDecodeError"
    if "content resp \<noteq> [] \<and> decode (content resp) = None"
    using that by (simp add: ResponseChecker_init_def process_response_def)
  have decoded: "ResponseChecker_init decode resp = Inr (checker_of resp v)"
    if "content resp \<noteq> [] \<and> decode (content resp) = Some v" for v
    using that by (simp add: ResponseChecker_init_def process_response_def checker_of_def)
  have built: "response self = resp \<and> status self = status_code resp
      \<and> (content resp = [] \<and> json self = JDict []
           \<or> content resp \<noteq> [] \<and> decode (content resp) = Some (json self))"
    if ok: "ResponseChecker_init decode resp = Inr self"
  proof (cases "content resp = []")
    case True
    with ok empty show ?thesis
      by (auto simp: checker_of_def)
  next
    case False
    with ok malformed obtain v where v: "decode (content resp) = Some v"
      by (cases "decode (content resp)") auto
    with False ok decoded [of v] show ?thesis
      by (auto simp: checker_of_def)
  qed
  from empty malformed decoded [of j] built show ?thesis
    by (simp add: checker_of_def)
qed

theorem ResponseChecker_init_spec_witness:
  "ResponseChecker_init (\<lambda>s. if s = ''{}'' then Some (JDict []) else None)
       \<lparr>content = [], status_code = 204\<rparr>
     = Inr \<lparr>response = \<lparr>content = [], status_code = 204\<rparr>, status = 204, json = JDict []\<rparr>
   \<and> ResponseChecker_init (\<lambda>s. if s = ''{}'' then Some (JDict []) else None)
       \<lparr>content = ''{oops'', status_code = 200\<rparr>
     = Inl JSONDecodeError
   \<and> ResponseChecker_init (\<lambda>s. if s = ''{}'' then Some (JDict []) else None)
       \<lparr>content = ''{}'', status_code = 200\<rparr>
     = Inr \<lparr>response = \<lparr>content = ''{}'', status_code = 200\<rparr>, status = 200, json = JDict []\<rparr>"
proof -
  let ?dec = "\<lambda>s. if s = ''{}'' then Some (JDict []) else None"
  have "ResponseChecker_init ?dec \<lparr>content = [], status_code = 204\<rparr>
      = Inr \<lparr>response = \<lparr>content = [], status_code = 204\<rparr>, status = 204, json = JDict []\<rparr>"
    using ResponseChecker_init_spec [of "\<lparr>content = [], status_code = 204\<rparr>" ?dec]
    by (simp add: checker_of_def)
  moreover have "ResponseChecker_init ?dec \<lparr>content = ''{oops'', status_code = 200\<rparr>
      = Inl JSONDecodeError"
    using ResponseChecker_init_spec [of "\<lparr>content = ''{oops'', status_code = 200\<rparr>" ?dec]
    by simp
  moreover have "ResponseChecker_init ?dec \<lparr>content = ''{}'', status_code = 200\<rparr>
      = Inr \<lparr>response = \<lparr>content = ''{}'', status_code = 200\<rparr>, status = 200, json = JDict []\<rparr>"
    using ResponseChecker_init_spec [of "\<lparr>content = ''{}'', status_code = 200\<rparr>" ?dec "JDict []"]
    by (simp add: checker_of_def)
  ultimately show ?thesis by simp
qed

section \<open>Status checks\<close>

lemma sublist_mid: "sublist xs (a @ xs @ b @ ys)"
  by (metis append.assoc sublist_appendI)

lemma sublist_last: "sublist ys (a @ xs @ b @ ys)"
  by (metis append.assoc sublist_append_leftI)

lemma validate_status_iff: "validate_status self code = Inr () \<longleftrightarrow> status self = code"
  by (simp add: validate_status_def)

lemma validate_status_message:
  assumes "status self \<noteq> code"
  shows "\<exists>msg. validate_status self code = Inl (AssertionError msg)
     \<and> sublist (str_int (status self)) msg \<and> sublist (str_int code) msg"
proof -
  let ?msg = "''Status is '' @ str_int (status self) @ '' but should be '' @ str_int code"
  have "validate_status self code = Inl (AssertionError ?msg)"
    using assms by (simp add: validate_status_def)
  moreover have "sublist (str_int (status self)) ?msg"
    by (rule sublist_mid)
  moreover have "sublist (str_int code) ?msg"
    by (rule sublist_last)
  ultimately show ?thesis by blast
qed

lemma class_checks_iff:
  "is_informational self = Inr () \<longleftrightarrow> 100 \<le> status self \<and> status self \<le> 199"
  "is_success self = Inr () \<longleftrightarrow> 200 \<le> status self \<and> status self \<le> 299"
  "is_redirect self = Inr () \<longleftrightarrow> 300 \<le> status self \<and> status self \<le> 399"
  "is_client_error self = Inr () \<longleftrightarrow> 400 \<le> status self \<and> status self \<le> 499"
  "is_server_error self = Inr () \<longleftrightarrow> 500 \<le> status self \<and> status self \<le> 599"
  by (simp_all add: is_informational_def is_success_def is_redirect_def is_client_error_def
      is_server_error_def status_is_informational_def status_is_success_def
      status_is_redirect_def status_is_client_error_def status_is_server_error_def)

lemma class_checks_fail:
  "is_informational self = Inr () \<or> is_informational self = Inl (AssertionError (''Status is '' @ str_int (status self)))"
  "is_success self = Inr () \<or> is_success self = Inl (AssertionError (''Status is '' @ str_int (status self)))"
  "is_redirect self = Inr () \<or> is_redirect self = Inl (AssertionError (''Status is '' @ str_int (status self)))"
  "is_client_error self = Inr () \<or> is_client_error self = Inl (AssertionError (''Status is '' @ str_int (status self)))"
  "is_server_error self = Inr () \<or> is_server_error self = Inl (AssertionError (''Status is '' @ str_int (status self)))"
  by (simp_all add: is_informational_def is_success_def is_redirect_def is_client_error_def
      is_server_error_def)

text \<open>
  C6. For a checker \<open>self\<close> that the constructor returned for the response \<open>resp\<close>:
  \<open>validate_status self code\<close> passes exactly when the status code of \<open>resp\<close> is \<open>code\<close>;
  on a mismatch it raises an assertion failure whose message contains the decimal
  rendering of the actual and of the expected code. Each of the five class checks passes
  exactly when the status code lies in its class (1xx, 2xx, 3xx, 4xx, 5xx), and raises
  an assertion failure otherwise.
\<close>

theorem status_checks_spec:
  assumes "ResponseChecker_init decode resp = Inr self"
  shows "(validate_status self code = Inr () \<longleftrightarrow> status_code resp = code)
       \<and> (status_code resp \<noteq> code \<longrightarrow>
            (\<exists>msg. validate_status self code = Inl (AssertionError msg)
               \<and> sublist (str_int (status_code resp)) msg \<and> sublist (str_int code) msg))
       \<and> (is_informational self = Inr () \<longleftrightarrow> 100 \<le> status_code resp \<and> status_code resp \<le> 199)
       \<and> (is_success self = Inr () \<longleftrightarrow> 200 \<le> status_code resp \<and> status_code resp \<le> 299)
       \<and> (is_redirect self = Inr () \<longleftrightarrow> 300 \<le> status_code resp \<and> status_code resp \<le> 399)
       \<and> (is_client_error self = Inr () \<longleftrightarrow> 400 \<le> status_code resp \<and> status_code resp \<le> 499)
       \<and> (is_server_error self = Inr () \<longleftrightarrow> 500 \<le> status_code resp \<and> status_code resp \<le> 599)
       \<and> (is_informational self = Inr () \<or> (\<exists>msg. is_informational self = Inl (AssertionError msg)))
       \<and> (is_success self = Inr () \<or> (\<exists>msg. is_success self = Inl (AssertionError msg)))
       \<and> (is_redirect self = Inr () \<or> (\<exists>msg. is_redirect self = Inl (AssertionError msg)))
       \<and> (is_client_error self = Inr () \<or> (\<exists>msg. is_client_error self = Inl (AssertionError msg)))
       \<and> (is_server_error self = Inr () \<or> (\<exists>msg. is_server_error self = Inl (AssertionError msg)))"
proof -
  have st: "status self = status_code resp"
    using assms by (rule init_fields)
  have "validate_status self code = Inr () \<longleftrightarrow> status_code resp = code"
    using st by (simp add: validate_status_iff)
  moreover have "status_code resp \<noteq> code \<longrightarrow>
      (\<exists>msg. validate_status self code = Inl (AssertionError msg)
         \<and> sublist (str_int (status_code resp)) msg \<and> sublist (str_int code) msg)"
    using st validate_status_message [of self code] by simp
  moreover note class_checks_iff [of self, unfolded st]
  moreover have "is_informational self = Inr () \<or> (\<exists>msg. is_informational self = Inl (AssertionError msg))"
    using class_checks_fail(1) [of self] by blast
  moreover have "is_success self = Inr () \<or> (\<exists>msg. is_success self = Inl (AssertionError msg))"
    using class_checks_fail(2) [of self] by blast
  moreover have "is_redirect self = Inr () \<or> (\<exists>msg. is_redirect self = Inl (AssertionError msg))"
    using class_checks_fail(3) [of self] by blast
  moreover have "is_client_error self = Inr () \<or> (\<exists>msg. is_client_error self = Inl (AssertionError msg))"
    using class_checks_fail(4) [of self] by blast
  moreover have "is_server_error self = Inr () \<or> (\<exists>msg. is_server_error self = Inl (AssertionError msg))"
    using class_checks_fail(5) [of self] by blast
  ultimately show ?thesis by blast
qed

theorem status_checks_spec_witness:
  "ResponseChecker_init (\<lambda>s. None) \<lparr>content = [], status_code = 404\<rparr>
     = Inr (checker_of \<lparr>content = [], status_code = 404\<rparr> (JDict []))
   \<and> validate_status (checker_of \<lparr>content = [], status_code = 404\<rparr> (JDict [])) 404 = Inr ()
   \<and> validate_status (checker_of \<lparr>content = [], status_code = 404\<rparr> (JDict [])) 200
       = Inl (AssertionError ''Status is 404 but should be 200'')
   \<and> is_client_error (checker_of \<lparr>content = [], status_code = 404\<rparr> (JDict [])) = Inr ()
   \<and> is_success (checker_of \<lparr>content = [], status_code = 404\<rparr> (JDict []))
       = Inl (AssertionError ''Status is 404'')"
proof -
  let ?r = "\<lparr>content = [], status_code = 404\<rparr>"
  let ?c = "checker_of ?r (JDict [])"
  have init: "ResponseChecker_init (\<lambda>s. None) ?r = Inr ?c"
    by (simp add: ResponseChecker_init_def process_response_def checker_of_def)
  note spec = status_checks_spec [OF init]
  have "validate_status ?c 404 = Inr ()"
    using spec [of 404] by simp
  moreover have "validate_status ?c 200 = Inl (AssertionError ''Status is 404 but should be 200'')"
    using spec [of 200]
    by (simp add: validate_status_def checker_of_def str_int_def digit_def)
  moreover have "is_client_error ?c = Inr ()"
    using spec [of 0] by simp
  moreover have "is_success ?c = Inl (AssertionError ''Status is 404'')"
    using spec [of 0]
    by (simp add: is_success_def checker_of_def status_is_success_def str_int_def digit_def)
  ultimately show ?thesis
    using init by simp
qed

section \<open>SharedData\<close>

lemma sublist_key: "sublist k (a @ k @ b)"
  by (rule sublist_appendI)

text \<open>
  C8. After \<^verbatim>\<open>data[k] = v\<close>, \<open>get k\<close> returns \<open>v\<close>. For a key that the mapping does
  not hold, \<open>get\<close> raises the assertion failure whose message contains the key, and
  returns no value at all, so no default.
\<close>

theorem SharedData_get_spec:
  "SharedData_get (SharedData_setitem d k v) k = Inr v
   \<and> (d k = None \<longrightarrow>
        SharedData_get d k = Inl (AssertionError (''Key: '' @ k @ '' is not in shared_data''))
        \<and> sublist k (''Key: '' @ k @ '' is not in shared_data'')
        \<and> (\<forall>w. SharedData_get d k \<noteq> Inr w))"
proof (intro conjI impI)
  show "SharedData_get (SharedData_setitem d k v) k = Inr v"
    by (simp add: SharedData_get_def SharedData_setitem_def)
next
  assume "d k = None"
  then show "SharedData_get d k = Inl (AssertionError (''Key: '' @ k @ '' is not in shared_data''))"
    by (simp add: SharedData_get_def)
next
  show "sublist k (''Key: '' @ k @ '' is not in shared_data'')"
    by (rule sublist_key)
next
  assume "d k = None"
  then show "\<forall>w. SharedData_get d k \<noteq> Inr w"
    by (simp add: SharedData_get_def)
qed

theorem SharedData_get_spec_witness:
  "SharedData_get (SharedData_setitem SharedData_new ''x'' (1 :: int)) ''x'' = Inr 1
   \<and> SharedData_get (SharedData_setitem SharedData_new ''x'' (1 :: int)) ''y''
       = Inl (AssertionError ''Key: y is not in shared_data'')"
proof -
  let ?d = "SharedData_setitem SharedData_new ''x'' (1 :: int)"
  have "SharedData_get ?d ''x'' = Inr 1"
    using SharedData_get_spec [of SharedData_new "''x''" "1 :: int"] by simp
  moreover have "?d ''y'' = None"
    by (simp add: SharedData_setitem_def SharedData_new_def)
  then have "SharedData_get ?d ''y'' = Inl (AssertionError ''Key: y is not in shared_data'')"
    using SharedData_get_spec [of ?d "''y''"] by simp
  ultimately show ?thesis by simp
qed

section \<open>ApiException\<close>

text \<open>
  C10. The constructor falls back on truthiness. The status code of the new exception is
  the argument when that is a non-zero integer and the class default 400 when it is
  omitted, None or 0; the client message is the argument when that is a non-empty
  string and the class default when it is omitted, None or the empty string. So an
  explicit status code 0 and an explicit empty message are replaced by the defaults.
\<close>

theorem ApiException_init_fallbacks:
  "exc_status_code (fst (ApiException_init message acm sc))
     = (case sc of None \<Rightarrow> 400 | Some n \<Rightarrow> if n = 0 then 400 else n)
   \<and> api_client_message (fst (ApiException_init message acm sc))
     = (case acm of None \<Rightarrow> ''Error occurred. Try again.''
        | Some s \<Rightarrow> if s = [] then ''Error occurred. Try again.'' else s)
   \<and> exc_status_code (fst (ApiException_init message acm None)) = 400
   \<and> exc_status_code (fst (ApiException_init message acm (Some 0))) = 400
   \<and> api_client_message (fst (ApiException_init message None sc)) = ''Error occurred. Try again.''
   \<and> api_client_message (fst (ApiException_init message (Some []) sc)) = ''Error occurred. Try again.''"
proof -
  have "exc_status_code (fst (ApiException_init message a s))
     = (case s of None \<Rightarrow> 400 | Some n \<Rightarrow> if n = 0 then 400 else n)" for a s
    by (cases s) (simp_all add: ApiException_init_def Let_def exc_status_code_def class_status_code_def)
  moreover have "api_client_message (fst (ApiException_init message a s))
     = (case a of None \<Rightarrow> ''Error occurred. Try again.''
        | Some s \<Rightarrow> if s = [] then ''Error occurred. Try again.'' else s)" for a s
    by (cases a) (simp_all add: ApiException_init_def Let_def api_client_message_def
        class_api_client_message_def)
  ultimately show ?thesis by simp
qed

theorem ApiException_init_fallbacks_witness:
  "exc_status_code (fst (ApiException_init (Some ''boom'') (Some []) (Some 0))) = 400
   \<and> api_client_message (fst (ApiException_init (Some ''boom'') (Some []) (Some 0)))
       = ''Error occurred. Try again.''
   \<and> exc_status_code (fst (ApiException_init None (Some ''Gone'') (Some 410))) = 410
   \<and> api_client_message (fst (ApiException_init None (Some ''Gone'') (Some 410))) = ''Gone''"
  using ApiException_init_fallbacks [of "Some ''boom''" "Some []" "Some 0"]
    ApiException_init_fallbacks [of None "Some ''Gone''" "Some 410"]
  by simp

section \<open>User factories\<close>

lemma anonymous_morsel:
  "morsel_set ''ANONYMOUS_USER_EXTERNAL_ID'' n = Inr (''ANONYMOUS_USER_EXTERNAL_ID'', n)"
  by (simp add: morsel_set_def is_legal_key_def legal_chars_def ascii_lower_def reserved_keys_def)

lemma Anonymous_create_eq:
  "Anonymous_create n h =
     (Inr (length h),
      h @ [\<lparr>email = None, uid = Some n, password = None, organization_id = None,
             organization_name = None, headers = [],
             cookies = [(''ANONYMOUS_USER_EXTERNAL_ID'', n)]\<rparr>])"
  by (simp add: Anonymous_create_def Let_def set_cookies_def anonymous_morsel AsyncClientBoB_init_def)

lemma get_user_hit: "users (factory w) n = Some a \<Longrightarrow> get_user orm n w = (Inr a, w)"
  by (simp add: get_user_def)

lemma get_user_anonymous_miss:
  assumes "factory_class (factory w) = AnonymousUserFactory" and "users (factory w) n = None"
  shows "get_user orm n w =
     (Inr (length (heap w)),
      w\<lparr>heap := heap w @ [\<lparr>email = None, uid = Some n, password = None, organization_id = None,
                            organization_name = None, headers = [],
                            cookies = [(''ANONYMOUS_USER_EXTERNAL_ID'', n)]\<rparr>],
        factory := (factory w)\<lparr>users := (users (factory w))(n \<mapsto> length (heap w))\<rparr>\<rparr>)"
  using assms
  by (simp add: get_user_def create_def Anonymous_create_eq)

lemma get_user_authorized_miss:
  assumes "factory_class (factory w) = AuthorizedUserFactory" and "users (factory w) n = None"
  shows "\<exists>e. fst (get_user orm n w) = Inl e"
    and "factory (snd (get_user orm n w)) = factory w"
    and "heap (snd (get_user orm n w)) = heap w"
  using assms
  by (auto simp: get_user_def create_def Authorized_create_def Let_def split: prod.splits option.splits)

lemma get_user_keeps:
  assumes "users (factory w) n = Some a"
  shows "users (factory (snd (get_user orm m w))) n = Some a"
proof (cases "users (factory w) m")
  case (Some b)
  with assms show ?thesis by (simp add: get_user_hit)
next
  case None
  with assms have "m \<noteq> n" by auto
  show ?thesis
  proof (cases "factory_class (factory w)")
    case AnonymousUserFactory
    with None assms \<open>m \<noteq> n\<close> show ?thesis
      by (simp add: get_user_anonymous_miss)
  next
    case AuthorizedUserFactory
    with None assms show ?thesis
      by (simp add: get_user_authorized_miss)
  qed
qed

lemma get_user_heap_prefix: "prefix (heap w) (heap (snd (get_user orm m w)))"
proof (cases "users (factory w) m")
  case (Some b)
  then show ?thesis by (simp add: get_user_hit)
next
  case None
  show ?thesis
  proof (cases "factory_class (factory w)")
    case AnonymousUserFactory
    with None show ?thesis
      by (simp add: get_user_anonymous_miss)
  next
    case AuthorizedUserFactory
    with None show ?thesis
      by (simp add: get_user_authorized_miss)
  qed
qed

lemma get_users_keeps:
  "users (factory w) n = Some a \<Longrightarrow> users (factory (get_users orm ns w)) n = Some a"
  by (induction ns arbitrary: w) (simp_all add: get_user_keeps)

lemma get_users_heap_prefix: "prefix (heap w) (heap (get_users orm ns w))"
proof (induction ns arbitrary: w)
  case Nil
  show ?case by simp
next
  case (Cons m ns)
  have "prefix (heap w) (heap (snd (get_user orm m w)))"
    by (rule get_user_heap_prefix)
  also have "prefix \<dots> (heap (get_users orm ns (snd (get_user orm m w))))"
    by (rule Cons.IH)
  finally show ?case by simp
qed

lemma prefix_nth: "prefix xs ys \<Longrightarrow> a < length xs \<Longrightarrow> ys ! a = xs ! a"
  by (auto simp: prefix_def nth_append)

lemma allocated_new: "allocated \<lparr>factory = UserFactory_init cls, heap = h, db = d\<rparr>"
  by (simp add: allocated_def UserFactory_init_def)

lemma get_user_allocated:
  assumes "allocated w"
  shows "allocated (snd (get_user orm m w))"
proof (cases "users (factory w) m")
  case (Some b)
  with assms show ?thesis by (simp add: get_user_hit)
next
  case None
  show ?thesis
  proof (cases "factory_class (factory w)")
    case AnonymousUserFactory
    with None assms show ?thesis
      by (auto simp: get_user_anonymous_miss allocated_def less_Suc_eq)
  next
    case AuthorizedUserFactory
    with None assms show ?thesis
      by (simp add: get_user_authorized_miss allocated_def)
  qed
qed

lemma get_users_allocated: "allocated w \<Longrightarrow> allocated (get_users orm ns w)"
  by (induction ns arbitrary: w) (simp_all add: get_user_allocated)

lemma cached_entry_stays:
  assumes "allocated v" and "users (factory v) n = Some b"
  shows "get_user orm n v = (Inr b, v) \<and> b < length (heap v)
     \<and> (\<forall>ns. get_user orm n (get_users orm ns v) = (Inr b, get_users orm ns v)
            \<and> users (factory (get_users orm ns v)) n = Some b
            \<and> b < length (heap (get_users orm ns v))
            \<and> heap (get_users orm ns v) ! b = heap v ! b)"
proof -
  have b: "b < length (heap v)"
    using assms by (auto simp: allocated_def)
  have "get_user orm n (get_users orm ns v) = (Inr b, get_users orm ns v)
            \<and> users (factory (get_users orm ns v)) n = Some b
            \<and> b < length (heap (get_users orm ns v))
            \<and> heap (get_users orm ns v) ! b = heap v ! b" for ns
  proof -
    have kept: "users (factory (get_users orm ns v)) n = Some b"
      using assms(2) by (rule get_users_keeps)
    have pre: "prefix (heap v) (heap (get_users orm ns v))"
      by (rule get_users_heap_prefix)
    from pre have "length (heap v) \<le> length (heap (get_users orm ns v))"
      by (rule prefix_length_le)
    with b have "b < length (heap (get_users orm ns v))" by simp
    moreover from pre b have "heap (get_users orm ns v) ! b = heap v ! b"
      by (rule prefix_nth)
    ultimately show ?thesis
      using kept by (simp add: get_user_hit)
  qed
  with b assms(2) show ?thesis
    by (simp add: get_user_hit)
qed

text \<open>
  C9. On a cache miss the anonymous factory allocates a new wrapper, stores its address
  under the name and returns it. The wrapper has no headers, its cookie jar holds exactly
  the entry \<open>ANONYMOUS_USER_EXTERNAL_ID\<close> with the name as value, its uid is the name, and
  its other identity attributes are unset.
\<close>

theorem anonymous_create_spec:
  assumes "factory_class (factory w) = AnonymousUserFactory"
    and "users (factory w) n = None"
  shows "\<exists>a w'. get_user orm n w = (Inr a, w')
     \<and> a = length (heap w)
     \<and> heap w' = heap w @ [heap w' ! a]
     \<and> headers (heap w' ! a) = []
     \<and> cookies (heap w' ! a) = [(''ANONYMOUS_USER_EXTERNAL_ID'', n)]
     \<and> uid (heap w' ! a) = Some n
     \<and> email (heap w' ! a) = None \<and> password (heap w' ! a) = None
     \<and> organization_id (heap w' ! a) = None \<and> organization_name (heap w' ! a) = None
     \<and> users (factory w') n = Some a
     \<and> db w' = db w"
  using get_user_anonymous_miss [OF assms, of orm] by simp

theorem anonymous_create_spec_witness:
  "fst (get_user orm_ok ''one''
          \<lparr>factory = UserFactory_init AnonymousUserFactory, heap = [], db = ()\<rparr>) = Inr 0
   \<and> heap (snd (get_user orm_ok ''one''
          \<lparr>factory = UserFactory_init AnonymousUserFactory, heap = [], db = ()\<rparr>))
     = [\<lparr>email = None, uid = Some ''one'', password = None, organization_id = None,
         organization_name = None, headers = [],
         cookies = [(''ANONYMOUS_USER_EXTERNAL_ID'', ''one'')]\<rparr>]"
proof -
  let ?w = "\<lparr>factory = UserFactory_init AnonymousUserFactory, heap = [], db = ()\<rparr>"
  have cls: "factory_class (factory ?w) = AnonymousUserFactory"
    and miss: "users (factory ?w) ''one'' = None"
    by (simp_all add: UserFactory_init_def)
  from anonymous_create_spec [OF cls miss, of orm_ok]
  obtain a w' where r: "get_user orm_ok ''one'' ?w = (Inr a, w')"
    and a: "a = length (heap ?w)"
    and h: "heap w' = heap ?w @ [heap w' ! a]"
    and f: "headers (heap w' ! a) = []"
      "cookies (heap w' ! a) = [(''ANONYMOUS_USER_EXTERNAL_ID'', ''one'')]"
      "uid (heap w' ! a) = Some ''one''"
      "email (heap w' ! a) = None" "password (heap w' ! a) = None"
      "organization_id (heap w' ! a) = None" "organization_name (heap w' ! a) = None"
    by blast
  from a have "a = 0" by simp
  moreover from h have "heap w' = [heap w' ! a]" by simp
  moreover from f have "heap w' ! a
      = \<lparr>email = None, uid = Some ''one'', password = None, organization_id = None,
         organization_name = None, headers = [],
         cookies = [(''ANONYMOUS_USER_EXTERNAL_ID'', ''one'')]\<rparr>"
    by (cases "heap w' ! a") simp
  ultimately show ?thesis
    using r by simp
qed

text \<open>
  C1, amended. In every world that satisfies the cache invariant (a new factory does,
  and every call of \<open>get_user\<close> keeps it), an anonymous factory returns a wrapper for
  every name: the returned address is allocated in the store and is the entry of the
  name in the cache. The second call with the name returns the same address and changes
  nothing. After any run of later calls, with any names, the name is still in the cache
  with that address, \<open>get_user\<close> still returns it, and the store holds the same object
  at it. For a factory of either class an entry that is in the cache is returned as it
  is and survives every later call in the same way. An authorized factory never gets an
  entry by \<open>get_user\<close>: on a cache miss its \<open>_create\<close> raises, and the name stays out of
  the cache.
\<close>

theorem get_user_cached:
  "allocated \<lparr>factory = UserFactory_init cls, heap = h, db = d\<rparr>
   \<and> (allocated w \<longrightarrow> allocated (snd (get_user orm m w)) \<and> allocated (get_users orm ms w))
   \<and> (allocated w \<and> factory_class (factory w) = AnonymousUserFactory \<longrightarrow>
      (\<exists>a w1. get_user orm n w = (Inr a, w1)
         \<and> users (factory w1) n = Some a
         \<and> a < length (heap w1)
         \<and> get_user orm n w1 = (Inr a, w1)
         \<and> (\<forall>ns. get_user orm n (get_users orm ns w1) = (Inr a, get_users orm ns w1)
                \<and> users (factory (get_users orm ns w1)) n = Some a
                \<and> a < length (heap (get_users orm ns w1))
                \<and> heap (get_users orm ns w1) ! a = heap w1 ! a)))
   \<and> (allocated w \<and> users (factory w) n = Some a \<longrightarrow>
        get_user orm n w = (Inr a, w)
        \<and> a < length (heap w)
        \<and> (\<forall>ns. get_user orm n (get_users orm ns w) = (Inr a, get_users orm ns w)
               \<and> users (factory (get_users orm ns w)) n = Some a
               \<and> a < length (heap (get_users orm ns w))
               \<and> heap (get_users orm ns w) ! a = heap w ! a))
   \<and> (factory_class (factory w) = AuthorizedUserFactory \<and> users (factory w) n = None \<longrightarrow>
        (\<exists>e. fst (get_user orm n w) = Inl e)
        \<and> users (factory (snd (get_user orm n w))) n = None)"
proof -
  have new: "allocated \<lparr>factory = UserFactory_init cls, heap = h, db = d\<rparr>"
    by (rule allocated_new)
  have inv: "allocated (snd (get_user orm m w)) \<and> allocated (get_users orm ms w)"
    if "allocated w"
    using that by (simp add: get_user_allocated get_users_allocated)
  have anon: "\<exists>a w1. get_user orm n w = (Inr a, w1)
         \<and> users (factory w1) n = Some a
         \<and> a < length (heap w1)
         \<and> get_user orm n w1 = (Inr a, w1)
         \<and> (\<forall>ns. get_user orm n (get_users orm ns w1) = (Inr a, get_users orm ns w1)
                \<and> users (factory (get_users orm ns w1)) n = Some a
                \<and> a < length (heap (get_users orm ns w1))
                \<and> heap (get_users orm ns w1) ! a = heap w1 ! a)"
    if h: "allocated w \<and> factory_class (factory w) = AnonymousUserFactory"
  proof (cases "users (factory w) n")
    case (Some b)
    with h cached_entry_stays [of w n b orm] show ?thesis by blast
  next
    case None
    let ?a = "length (heap w)"
    let ?w1 = "snd (get_user orm n w)"
    have first: "get_user orm n w = (Inr ?a, ?w1)"
      using h None by (simp add: get_user_anonymous_miss)
    have entry: "users (factory ?w1) n = Some ?a"
      using h None by (simp add: get_user_anonymous_miss)
    have "allocated ?w1"
      using h by (simp add: get_user_allocated)
    from cached_entry_stays [OF this entry, of orm] first entry show ?thesis by blast
  qed
  have hit: "get_user orm n w = (Inr a, w)
        \<and> a < length (heap w)
        \<and> (\<forall>ns. get_user orm n (get_users orm ns w) = (Inr a, get_users orm ns w)
               \<and> users (factory (get_users orm ns w)) n = Some a
               \<and> a < length (heap (get_users orm ns w))
               \<and> heap (get_users orm ns w) ! a = heap w ! a)"
    if "allocated w \<and> users (factory w) n = Some a"
    using that cached_entry_stays [of w n a orm] by blast
  have auth: "(\<exists>e. fst (get_user orm n w) = Inl e)
        \<and> users (factory (snd (get_user orm n w))) n = None"
    if "factory_class (factory w) = AuthorizedUserFactory \<and> users (factory w) n = None"
    using that get_user_authorized_miss [of w n orm] by simp
  from new inv anon hit auth show ?thesis by blast
qed

theorem get_user_cached_witness:
  "allocated \<lparr>factory = UserFactory_init AnonymousUserFactory, heap = [], db = ()\<rparr>
   \<and> get_user orm_ok ''one''
          \<lparr>factory = UserFactory_init AnonymousUserFactory, heap = [], db = ()\<rparr>
       = (Inr 0, snd (get_user orm_ok ''one''
          \<lparr>factory = UserFactory_init AnonymousUserFactory, heap = [], db = ()\<rparr>))
   \<and> users (factory (snd (get_user orm_ok ''one''
          \<lparr>factory = UserFactory_init AnonymousUserFactory, heap = [], db = ()\<rparr>))) ''one'' = Some 0
   \<and> length (heap (snd (get_user orm_ok ''one''
          \<lparr>factory = UserFactory_init AnonymousUserFactory, heap = [], db = ()\<rparr>))) = 1
   \<and> fst (get_user orm_ok ''one'' (snd (get_user orm_ok ''one''
          \<lparr>factory = UserFactory_init AnonymousUserFactory, heap = [], db = ()\<rparr>))) = Inr 0
   \<and> fst (get_user orm_ok ''one'' (get_users orm_ok [''two'', ''one'', ''three'']
        (snd (get_user orm_ok ''one''
          \<lparr>factory = UserFactory_init AnonymousUserFactory, heap = [], db = ()\<rparr>)))) = Inr 0
   \<and> users (factory (get_users orm_ok [''two'', ''one'', ''three'']
        (snd (get_user orm_ok ''one''
          \<lparr>factory = UserFactory_init AnonymousUserFactory, heap = [], db = ()\<rparr>)))) ''one'' = Some 0
   \<and> heap (get_users orm_ok [''two'', ''one'', ''three'']
        (snd (get_user orm_ok ''one''
          \<lparr>factory = UserFactory_init AnonymousUserFactory, heap = [], db = ()\<rparr>))) ! 0
       = heap (snd (get_user orm_ok ''one''
          \<lparr>factory = UserFactory_init AnonymousUserFactory, heap = [], db = ()\<rparr>)) ! 0"
proof -
  let ?w = "\<lparr>factory = UserFactory_init AnonymousUserFactory, heap = [], db = ()\<rparr>"
  note spec = get_user_cached [of AnonymousUserFactory "[]" "()" ?w orm_ok "''one''" "[]" "''one''"]
  have inv: "allocated ?w"
    using spec by blast
  have cls: "factory_class (factory ?w) = AnonymousUserFactory"
    by (simp add: UserFactory_init_def)
  from spec inv cls
  obtain a w1 where first: "get_user orm_ok ''one'' ?w = (Inr a, w1)"
    and entry: "users (factory w1) ''one'' = Some a"
    and again: "get_user orm_ok ''one'' w1 = (Inr a, w1)"
    and later: "\<And>ns. get_user orm_ok ''one'' (get_users orm_ok ns w1) = (Inr a, get_users orm_ok ns w1)
                \<and> users (factory (get_users orm_ok ns w1)) ''one'' = Some a
                \<and> a < length (heap (get_users orm_ok ns w1))
                \<and> heap (get_users orm_ok ns w1) ! a = heap w1 ! a"
    by blast
  have miss: "users (factory ?w) ''one'' = None"
    by (simp add: UserFactory_init_def)
  have ev: "get_user orm_ok ''one'' ?w
      = (Inr 0, ?w\<lparr>heap := [\<lparr>email = None, uid = Some ''one'', password = None,
                   organization_id = None, organization_name = None, headers = [],
                   cookies = [(''ANONYMOUS_USER_EXTERNAL_ID'', ''one'')]\<rparr>],
                 factory := (factory ?w)\<lparr>users := (users (factory ?w))(''one'' \<mapsto> 0)\<rparr>\<rparr>)"
    using get_user_anonymous_miss [OF cls miss, of orm_ok] by simp
  with first have a: "a = 0" and w1: "w1 = snd (get_user orm_ok ''one'' ?w)"
    by simp_all
  let ?w1 = "snd (get_user orm_ok ''one'' ?w)"
  let ?ns = "[''two'', ''one'', ''three'']"
  have f1: "get_user orm_ok ''one'' ?w = (Inr 0, ?w1)"
    using first unfolding a w1 .
  have f2: "users (factory ?w1) ''one'' = Some 0"
    using entry unfolding a w1 .
  have f3: "length (heap ?w1) = 1"
    using ev by simp
  have "get_user orm_ok ''one'' ?w1 = (Inr 0, ?w1)"
    using again unfolding a w1 .
  then have f4: "fst (get_user orm_ok ''one'' ?w1) = Inr 0"
    by (rule arg_cong [where f = fst, THEN trans]) simp
  have l: "get_user orm_ok ''one'' (get_users orm_ok ?ns ?w1) = (Inr 0, get_users orm_ok ?ns ?w1)
      \<and> users (factory (get_users orm_ok ?ns ?w1)) ''one'' = Some 0
      \<and> 0 < length (heap (get_users orm_ok ?ns ?w1))
      \<and> heap (get_users orm_ok ?ns ?w1) ! 0 = heap ?w1 ! 0"
    using later [of ?ns] unfolding a w1 .
  from l have "get_user orm_ok ''one'' (get_users orm_ok ?ns ?w1) = (Inr 0, get_users orm_ok ?ns ?w1)"
    by (rule conjunct1)
  then have f5: "fst (get_user orm_ok ''one'' (get_users orm_ok ?ns ?w1)) = Inr 0"
    by (rule arg_cong [where f = fst, THEN trans]) simp
  from l have f6: "users (factory (get_users orm_ok ?ns ?w1)) ''one'' = Some 0"
    by blast
  from l have f7: "heap (get_users orm_ok ?ns ?w1) ! 0 = heap ?w1 ! 0"
    by blast
  from inv f1 f2 f3 f4 f5 f6 f7 show ?thesis
    by (intro conjI)
qed

text \<open>
  A new authorized factory, with an ORM that works: both calls of \<open>get_user\<close> raise the
  assertion failure of \<^verbatim>\<open>assert False\<close>, and no wrapper is returned.
\<close>

theorem get_user_authorized_counterexample:
  "fst (get_user orm_ok ''one''
          \<lparr>factory = UserFactory_init AuthorizedUserFactory, heap = [], db = ()\<rparr>)
     = Inl (AssertionError [])
   \<and> fst (get_user orm_ok ''one'' (snd (get_user orm_ok ''one''
          \<lparr>factory = UserFactory_init AuthorizedUserFactory, heap = [], db = ()\<rparr>)))
     = Inl (AssertionError [])"
  by (simp add: get_user_def create_def Authorized_create_def UserFactory_init_def orm_ok_def Let_def)

end
